theory Spec2Isabelle
  imports Main "HOL-Library.Word"
begin

section \<open>Buffers, numbers and errors\<close>

text \<open>
  A Node.js \<open>Buffer\<close> is a list of bytes. JavaScript numbers that the program uses as
  integers (indices, depths, version words) are \<open>int\<close>: its only arithmetic on them is
  \<open>index + 1\<close>, \<open>index + 0x80000000\<close> and \<open>depth + 1\<close>, exact on doubles at these
  magnitudes.
\<close>

type_synonym byte = "8 word"
type_synonym buffer = "byte list"

text \<open>
  Every \<open>throw\<close> of the program, of \<open>typeforce\<close>, of the \<open>Buffer\<close> methods and of the codec
  is a value:
  \<^item> \<open>TypeError msg\<close>: \<open>throw new TypeError(msg)\<close> in \<open>index.ts\<close> (and the type error of
    \<open>tiny-secp256k1\<close> for a missing scalar);
  \<^item> \<open>TfTypeError what\<close>: a failed \<open>typeforce\<close> check of the type or property \<open>what\<close>;
  \<^item> \<open>OutOfRange hi v\<close>: a \<open>Buffer\<close> integer write of the value \<open>v\<close> outside \<open>0..hi\<close>;
  \<^item> \<open>OutOfBounds\<close>: a \<open>Buffer\<close> read or write past the end of the buffer;
  \<^item> \<open>Base58Error\<close>: \<open>bs58check.decode\<close> threw (bad character or checksum).
\<close>

datatype error =
    TypeError string
  | TfTypeError string
  | OutOfRange int int
  | OutOfBounds
  | Base58Error

definition UInt8 :: "int \<Rightarrow> bool" where
  "UInt8 v = (0 \<le> v \<and> v \<le> 0xff)"

definition UInt32 :: "int \<Rightarrow> bool" where
  "UInt32 v = (0 \<le> v \<and> v \<le> 0xffffffff)"

definition HIGHEST_BIT :: int where
  "HIGHEST_BIT = 0x80000000"

definition UINT31_MAX :: int where
  "UINT31_MAX = 2 ^ 31 - 1"

definition UInt31 :: "int \<Rightarrow> bool" where
  "UInt31 v = (UInt32 v \<and> v \<le> UINT31_MAX)"

definition BufferN :: "nat \<Rightarrow> buffer \<Rightarrow> bool" where
  "BufferN n b = (length b = n)"

definition UINT256_TYPE :: "buffer \<Rightarrow> bool" where
  "UINT256_TYPE = BufferN 32"

text \<open>
  \<open>Buffer.allocUnsafe(n)\<close> gives \<open>n\<close> bytes of unspecified content; the model fills them
  with zero. The program overwrites every byte before it reads the buffer whenever the
  keys have the lengths its constructors check (lemmas \<open>derive_data_filled\<close>,
  \<open>toBase58_private\<close> and \<open>toBase58_neutered\<close> below).
\<close>

definition allocUnsafe :: "nat \<Rightarrow> buffer" where
  "allocUnsafe n = replicate n 0"

text \<open>
  \<open>src.copy(target, off)\<close> overwrites \<open>target\<close> from \<open>off\<close> on with the bytes of \<open>src\<close>, and
  stops at the end of \<open>target\<close>.
\<close>

definition buf_copy :: "buffer \<Rightarrow> buffer \<Rightarrow> nat \<Rightarrow> buffer" where
  "buf_copy src target off =
     take (length target) (take off target @ src @ drop (off + length src) target)"

definition ser32 :: "int \<Rightarrow> buffer" where
  "ser32 v = [word_of_int (v div 2 ^ 24), word_of_int (v div 2 ^ 16),
              word_of_int (v div 2 ^ 8), word_of_int v]"

definition writeUInt32BE :: "int \<Rightarrow> nat \<Rightarrow> buffer \<Rightarrow> error + buffer" where
  "writeUInt32BE v off buf =
     (if \<not> UInt32 v then Inl (OutOfRange 0xffffffff v)
      else if length buf < off + 4 then Inl OutOfBounds
      else Inr (buf_copy (ser32 v) buf off))"

definition writeUInt8 :: "int \<Rightarrow> nat \<Rightarrow> buffer \<Rightarrow> error + buffer" where
  "writeUInt8 v off buf =
     (if \<not> UInt8 v then Inl (OutOfRange 0xff v)
      else if length buf < off + 1 then Inl OutOfBounds
      else Inr (buf_copy [word_of_int v] buf off))"

definition readUInt32BE :: "buffer \<Rightarrow> nat \<Rightarrow> error + int" where
  "readUInt32BE buf off =
     (if length buf < off + 4 then Inl OutOfBounds
      else Inr (uint (buf ! off) * 2 ^ 24 + uint (buf ! (off + 1)) * 2 ^ 16
                + uint (buf ! (off + 2)) * 2 ^ 8 + uint (buf ! (off + 3))))"

definition readUInt8 :: "buffer \<Rightarrow> nat \<Rightarrow> error + int" where
  "readUInt8 buf off =
     (if length buf < off + 1 then Inl OutOfBounds else Inr (uint (buf ! off)))"

text \<open>\<open>buf.slice(a, b)\<close> for \<open>0 \<le> a \<le> b\<close>.\<close>

definition buf_slice :: "buffer \<Rightarrow> nat \<Rightarrow> nat \<Rightarrow> buffer" where
  "buf_slice buf a b = take (b - a) (drop a buf)"

text \<open>The number that a buffer is, read big-endian.\<close>

definition be_val :: "buffer \<Rightarrow> int" where
  "be_val b = foldl (\<lambda>a x. a * 256 + uint x) 0 b"

section \<open>Network parameters\<close>

text \<open>
  The \<open>Network\<close> type, with \<open>bip32.public\<close> and \<open>bip32.private\<close> as two fields. Its
  optional members are never read by the program.
\<close>

record network =
  wif :: int
  bip32_public :: int
  bip32_private :: int

definition BITCOIN :: network where
  "BITCOIN = \<lparr> wif = 0x80, bip32_public = 0x0488b21e, bip32_private = 0x0488ade4 \<rparr>"

text \<open>\<open>typeforce(NETWORK_TYPE, network)\<close>: \<open>None\<close> when the record passes.\<close>

definition NETWORK_TYPE :: "network \<Rightarrow> error option" where
  "NETWORK_TYPE net =
     (if \<not> UInt8 (wif net) then Some (TfTypeError ''wif'')
      else if \<not> UInt32 (bip32_public net) then Some (TfTypeError ''bip32.public'')
      else if \<not> UInt32 (bip32_private net) then Some (TfTypeError ''bip32.private'')
      else None)"

section \<open>External capabilities\<close>

text \<open>
  The program calls \<open>tiny-secp256k1\<close> (\<open>ecc\<close>), the module \<open>./crypto\<close> (\<open>hash160\<close>,
  \<open>hmacSHA512\<close>) and \<open>bs58check\<close>. Their code is not part of \<open>index.ts\<close>, so they are
  a parameter of every operation: a record of pure functions with the result types of
  their contracts (\<open>null\<close> is \<open>None\<close>).
\<close>

record lib =
  isPrivate :: "buffer \<Rightarrow> bool"
  isPoint :: "buffer \<Rightarrow> bool"
  pointFromScalar :: "buffer \<Rightarrow> bool \<Rightarrow> buffer"
  privateAdd :: "buffer \<Rightarrow> buffer \<Rightarrow> buffer option"
  pointAddScalar :: "buffer \<Rightarrow> buffer \<Rightarrow> bool \<Rightarrow> buffer option"
  hash160 :: "buffer \<Rightarrow> buffer"
  hmacSHA512 :: "buffer \<Rightarrow> buffer \<Rightarrow> buffer"
  bs58check_encode :: "buffer \<Rightarrow> string"
  bs58check_decode :: "string \<Rightarrow> buffer option"

section \<open>The node\<close>

text \<open>
  The class \<open>BIP32\<close>: the private fields \<open>__d\<close> and \<open>__Q\<close> are \<open>priv_d\<close> and \<open>pub_Q\<close>
  (\<open>undefined\<close> is \<open>None\<close>).
\<close>

record BIP32 =
  priv_d :: "buffer option"
  pub_Q :: "buffer option"
  chainCode :: buffer
  network :: network
  depth :: int
  index :: int
  parentFingerprint :: int

text \<open>The constructor.\<close>

definition BIP32_new ::
  "buffer option \<Rightarrow> buffer option \<Rightarrow> buffer \<Rightarrow> network \<Rightarrow> error + BIP32" where
  "BIP32_new d Q cc net =
     (case NETWORK_TYPE net of
        Some e \<Rightarrow> Inl e
      | None \<Rightarrow>
          Inr \<lparr> priv_d = d, pub_Q = Q, chainCode = cc, network = net,
                depth = 0, index = 0, parentFingerprint = 0 \<rparr>)"

text \<open>
  The getter \<open>publicKey\<close>. It stores the point it computes in \<open>__Q\<close>; as
  \<open>pointFromScalar\<close> is a pure function, the stored point is the one a second
  computation gives, and the model computes it at each call. With neither field set,
  \<open>ecc.pointFromScalar(undefined, true)\<close> throws.
\<close>

definition publicKey :: "lib \<Rightarrow> BIP32 \<Rightarrow> error + buffer" where
  "publicKey L this =
     (case pub_Q this of
        Some q \<Rightarrow> Inr q
      | None \<Rightarrow>
          (case priv_d this of
             Some k \<Rightarrow> Inr (pointFromScalar L k True)
           | None \<Rightarrow> Inl (TypeError ''Expected Private'')))"

definition privateKey :: "BIP32 \<Rightarrow> buffer option" where
  "privateKey this = priv_d this"

definition "identifier" :: "lib \<Rightarrow> BIP32 \<Rightarrow> error + buffer" where
  "identifier L this =
     (case publicKey L this of Inl e \<Rightarrow> Inl e | Inr pk \<Rightarrow> Inr (hash160 L pk))"

definition fingerprint :: "lib \<Rightarrow> BIP32 \<Rightarrow> error + buffer" where
  "fingerprint L this =
     (case identifier L this of Inl e \<Rightarrow> Inl e | Inr h \<Rightarrow> Inr (buf_slice h 0 4))"

definition isNeutered :: "BIP32 \<Rightarrow> bool" where
  "isNeutered this = (priv_d this = None)"

section \<open>Construction from keys and from a seed\<close>

text \<open>An absent \<open>network\<close> argument is \<open>None\<close>: \<open>network || BITCOIN\<close>.\<close>

definition network_or_default :: "network option \<Rightarrow> network" where
  "network_or_default n = (case n of Some net \<Rightarrow> net | None \<Rightarrow> BITCOIN)"

definition fromPrivateKey ::
  "lib \<Rightarrow> buffer \<Rightarrow> buffer \<Rightarrow> network option \<Rightarrow> error + BIP32" where
  "fromPrivateKey L k cc n =
     (if \<not> UINT256_TYPE k then Inl (TfTypeError ''privateKey'')
      else if \<not> UINT256_TYPE cc then Inl (TfTypeError ''chainCode'')
      else if \<not> isPrivate L k then Inl (TypeError ''Private key not in range [1, n)'')
      else BIP32_new (Some k) None cc (network_or_default n))"

definition fromPublicKey ::
  "lib \<Rightarrow> buffer \<Rightarrow> buffer \<Rightarrow> network option \<Rightarrow> error + BIP32" where
  "fromPublicKey L pk cc n =
     (if \<not> BufferN 33 pk then Inl (TfTypeError ''publicKey'')
      else if \<not> UINT256_TYPE cc then Inl (TfTypeError ''chainCode'')
      else if \<not> isPoint L pk then Inl (TypeError ''Point is not on the curve'')
      else BIP32_new None (Some pk) cc (network_or_default n))"

text \<open>\<open>Buffer.from('Bitcoin seed', 'utf8')\<close>.\<close>

definition bitcoin_seed :: buffer where
  "bitcoin_seed = map (\<lambda>c. of_nat (of_char c)) ''Bitcoin seed''"

definition fromSeed :: "lib \<Rightarrow> buffer \<Rightarrow> network option \<Rightarrow> error + BIP32" where
  "fromSeed L seed n =
     (if length seed < 16 then Inl (TypeError ''Seed should be at least 128 bits'')
      else if length seed > 64 then Inl (TypeError ''Seed should be at most 512 bits'')
      else
        (let I = hmacSHA512 L bitcoin_seed seed;
             IL = buf_slice I 0 32;
             IR = drop 32 I
         in fromPrivateKey L IL IR n))"

section \<open>Neutering\<close>

definition neutered :: "lib \<Rightarrow> BIP32 \<Rightarrow> error + BIP32" where
  "neutered L this =
     (case publicKey L this of
        Inl e \<Rightarrow> Inl e
      | Inr pk \<Rightarrow>
          (case fromPublicKey L pk (chainCode this) (Some (network this)) of
             Inl e \<Rightarrow> Inl e
           | Inr n \<Rightarrow>
               Inr (n\<lparr> depth := depth this, index := index this,
                        parentFingerprint := parentFingerprint this \<rparr>)))"

section \<open>Serialization\<close>

definition toBase58 :: "lib \<Rightarrow> BIP32 \<Rightarrow> error + string" where
  "toBase58 L this =
     (let net = network this;
          version = (if \<not> isNeutered this then bip32_private net else bip32_public net);
          buffer = allocUnsafe 78
      in case writeUInt32BE version 0 buffer of
           Inl e \<Rightarrow> Inl e
         | Inr b1 \<Rightarrow>
        (case writeUInt8 (depth this) 4 b1 of
           Inl e \<Rightarrow> Inl e
         | Inr b2 \<Rightarrow>
        (case writeUInt32BE (parentFingerprint this) 5 b2 of
           Inl e \<Rightarrow> Inl e
         | Inr b3 \<Rightarrow>
        (case writeUInt32BE (index this) 9 b3 of
           Inl e \<Rightarrow> Inl e
         | Inr b4 \<Rightarrow>
        (let b5 = buf_copy (chainCode this) b4 13
         in case privateKey this of
              Some k \<Rightarrow>
                (case writeUInt8 0 45 b5 of
                   Inl e \<Rightarrow> Inl e
                 | Inr b6 \<Rightarrow> Inr (bs58check_encode L (buf_copy k b6 46)))
            | None \<Rightarrow>
                (case publicKey L this of
                   Inl e \<Rightarrow> Inl e
                 | Inr pk \<Rightarrow> Inr (bs58check_encode L (buf_copy pk b5 45))))))))"

text \<open>
  \<open>fromBase58\<close>. The reads stand after the length check, so \<open>buffer[4]\<close> is a byte of
  the buffer.
\<close>

definition fromBase58 :: "lib \<Rightarrow> string \<Rightarrow> network option \<Rightarrow> error + BIP32" where
  "fromBase58 L s n =
     (case bs58check_decode L s of
        None \<Rightarrow> Inl Base58Error
      | Some buffer \<Rightarrow>
          if length buffer \<noteq> 78 then Inl (TypeError ''Invalid buffer length'')
          else
            (let net = network_or_default n
             in case readUInt32BE buffer 0 of
                  Inl e \<Rightarrow> Inl e
                | Inr version \<Rightarrow>
               if version \<noteq> bip32_private net \<and> version \<noteq> bip32_public net
               then Inl (TypeError ''Invalid network version'')
               else
                 (let dep = uint (buffer ! 4)
                  in case readUInt32BE buffer 5 of
                       Inl e \<Rightarrow> Inl e
                     | Inr pf \<Rightarrow>
                    if dep = 0 \<and> pf \<noteq> 0 then Inl (TypeError ''Invalid parent fingerprint'')
                    else
                      (case readUInt32BE buffer 9 of
                         Inl e \<Rightarrow> Inl e
                       | Inr idx \<Rightarrow>
                      if dep = 0 \<and> idx \<noteq> 0 then Inl (TypeError ''Invalid index'')
                      else
                        (let cc = buf_slice buffer 13 45;
                             made =
                               (if version = bip32_private net
                                then
                                  (case readUInt8 buffer 45 of
                                     Inl e \<Rightarrow> Inl e
                                   | Inr b \<Rightarrow>
                                       if b \<noteq> 0 then Inl (TypeError ''Invalid private key'')
                                       else fromPrivateKey L (buf_slice buffer 46 78) cc (Some net))
                                else fromPublicKey L (buf_slice buffer 45 78) cc (Some net))
                         in case made of
                              Inl e \<Rightarrow> Inl e
                            | Inr node \<Rightarrow>
                                Inr (node\<lparr> depth := dep, index := idx,
                                         parentFingerprint := pf \<rparr>))))))"

section \<open>Derivation\<close>

text \<open>
  The 37 bytes that \<open>derive\<close> hashes. In the hardened branch the program throws on a
  neutered node (\<open>__d\<close> undefined) and otherwise copies the private key.
\<close>

definition derive_data :: "lib \<Rightarrow> BIP32 \<Rightarrow> int \<Rightarrow> error + buffer" where
  "derive_data L this i =
     (let isHardened = (i \<ge> HIGHEST_BIT);
          data = allocUnsafe 37
      in if isHardened then
           (case privateKey this of
              None \<Rightarrow> Inl (TypeError ''Missing private key for hardened child key'')
            | Some k \<Rightarrow> writeUInt32BE i 33 (buf_copy k (data[0 := 0]) 1))
         else
           (case publicKey L this of
              Inl e \<Rightarrow> Inl e
            | Inr pk \<Rightarrow> writeUInt32BE i 33 (buf_copy pk data 0)))"

text \<open>The last three statements of \<open>derive\<close>, on the node \<open>hd\<close> (here \<open>node\<close>) just constructed.\<close>

definition derive_finish :: "lib \<Rightarrow> BIP32 \<Rightarrow> int \<Rightarrow> error + BIP32 \<Rightarrow> error + BIP32" where
  "derive_finish L this i made =
     (case made of
        Inl e \<Rightarrow> Inl e
      | Inr node \<Rightarrow>
          (case fingerprint L this of
             Inl e \<Rightarrow> Inl e
           | Inr fp \<Rightarrow>
               (case readUInt32BE fp 0 of
                  Inl e \<Rightarrow> Inl e
                | Inr pf \<Rightarrow>
                    Inr (node\<lparr> depth := depth this + 1, index := i,
                             parentFingerprint := pf \<rparr>))))"

text \<open>
  One pass through the body of \<open>derive\<close> after its \<open>typeforce\<close> check: \<open>Retry\<close> where the
  program executes \<open>return this.derive(index + 1)\<close>, \<open>Done r\<close> where it returns or throws.
\<close>

datatype attempt = Retry | Done "error + BIP32"

definition derive_attempt :: "lib \<Rightarrow> BIP32 \<Rightarrow> int \<Rightarrow> attempt" where
  "derive_attempt L this i =
     (case derive_data L this i of
        Inl e \<Rightarrow> Done (Inl e)
      | Inr data \<Rightarrow>
          (let I = hmacSHA512 L (chainCode this) data;
               IL = buf_slice I 0 32;
               IR = drop 32 I
           in if \<not> isPrivate L IL then Retry
              else
                (case privateKey this of
                   Some k \<Rightarrow>
                     (case privateAdd L k IL of
                        None \<Rightarrow> Retry
                      | Some ki \<Rightarrow>
                          Done (derive_finish L this i
                                  (fromPrivateKey L ki IR (Some (network this)))))
                 | None \<Rightarrow>
                     (case publicKey L this of
                        Inl e \<Rightarrow> Done (Inl e)
                      | Inr pk \<Rightarrow>
                          (case pointAddScalar L pk IL True of
                             None \<Rightarrow> Retry
                           | Some Ki \<Rightarrow>
                               Done (derive_finish L this i
                                       (fromPublicKey L Ki IR (Some (network this)))))))))"

function derive :: "lib \<Rightarrow> BIP32 \<Rightarrow> int \<Rightarrow> error + BIP32" where
  "derive L this i =
     (if \<not> UInt32 i then Inl (TfTypeError ''UInt32'')
      else
        (case derive_attempt L this i of
           Retry \<Rightarrow> derive L this (i + 1)
         | Done r \<Rightarrow> r))"
  by pat_completeness auto
termination
  by (relation "measure (\<lambda>(L, this, i). nat (2 ^ 32 - i))") (auto simp: UInt32_def)

definition deriveHardened :: "lib \<Rightarrow> BIP32 \<Rightarrow> int \<Rightarrow> error + BIP32" where
  "deriveHardened L this i =
     (if \<not> UInt31 i then Inl (TfTypeError ''UInt31'')
      else derive L this (i + HIGHEST_BIT))"

section \<open>Path resolution\<close>

text \<open>
  The pattern of \<open>BIP32Path\<close> is a regular expression; the matcher takes derivatives
  character by character. \<open>Digit\<close> is \<open>\d\<close>.
\<close>

datatype rexp =
    Nul
  | Eps
  | Chr char
  | Digit
  | Seq rexp rexp
  | Alt rexp rexp
  | Star rexp

definition is_digit :: "char \<Rightarrow> bool" where
  "is_digit c = (c \<in> set ''0123456789'')"

fun nullable :: "rexp \<Rightarrow> bool" where
  "nullable Nul = False"
| "nullable Eps = True"
| "nullable (Chr c) = False"
| "nullable Digit = False"
| "nullable (Seq r s) = (nullable r \<and> nullable s)"
| "nullable (Alt r s) = (nullable r \<or> nullable s)"
| "nullable (Star r) = True"

fun deriv :: "char \<Rightarrow> rexp \<Rightarrow> rexp" where
  "deriv a Nul = Nul"
| "deriv a Eps = Nul"
| "deriv a (Chr c) = (if a = c then Eps else Nul)"
| "deriv a Digit = (if is_digit a then Eps else Nul)"
| "deriv a (Seq r s) =
     (if nullable r then Alt (Seq (deriv a r) s) (deriv a s) else Seq (deriv a r) s)"
| "deriv a (Alt r s) = Alt (deriv a r) (deriv a s)"
| "deriv a (Star r) = Seq (deriv a r) (Star r)"

definition matches :: "rexp \<Rightarrow> string \<Rightarrow> bool" where
  "matches r s = nullable (fold deriv s r)"

definition Opt :: "rexp \<Rightarrow> rexp" where
  "Opt r = Alt r Eps"

definition Plus :: "rexp \<Rightarrow> rexp" where
  "Plus r = Seq r (Star r)"

definition apostrophe :: char where
  "apostrophe = CHR 0x27"

text \<open>\<^verbatim>\<open>/^(m\/)?(\d+'?\/)*\d+'?$/\<close>\<close>

definition BIP32Path_pattern :: rexp where
  "BIP32Path_pattern =
     Seq (Opt (Seq (Chr CHR ''m'') (Chr CHR ''/'')))
       (Seq (Star (Seq (Plus Digit) (Seq (Opt (Chr apostrophe)) (Chr CHR ''/''))))
          (Seq (Plus Digit) (Opt (Chr apostrophe))))"

definition BIP32Path :: "string \<Rightarrow> bool" where
  "BIP32Path v = matches BIP32Path_pattern v"

text \<open>\<open>s.split(c)\<close>: one more piece than there are separators.\<close>

fun split_on :: "char \<Rightarrow> string \<Rightarrow> string list" where
  "split_on c [] = [[]]"
| "split_on c (x # xs) =
     (if x = c then [] # split_on c xs
      else (case split_on c xs of [] \<Rightarrow> [[x]] | w # ws \<Rightarrow> (x # w) # ws))"

text \<open>
  \<open>parseInt(s, 10)\<close> on the segments the pattern lets through (digits, then at most an
  apostrophe): the value of the leading digits, \<open>None\<close> for \<open>NaN\<close>.
\<close>

definition parseInt10 :: "string \<Rightarrow> int option" where
  "parseInt10 s =
     (let ds = takeWhile is_digit s
      in if ds = [] then None
         else Some (foldl (\<lambda>a c. 10 * a + (of_char c - 48)) 0 ds))"

text \<open>The function that \<open>derivePath\<close> folds over the segments; \<open>NaN\<close> fails each check.\<close>

definition derive_segment :: "lib \<Rightarrow> BIP32 \<Rightarrow> string \<Rightarrow> error + BIP32" where
  "derive_segment L prevHd indexStr =
     (if indexStr \<noteq> [] \<and> last indexStr = apostrophe then
        (case parseInt10 (butlast indexStr) of
           None \<Rightarrow> Inl (TfTypeError ''UInt31'')
         | Some i \<Rightarrow> deriveHardened L prevHd i)
      else
        (case parseInt10 indexStr of
           None \<Rightarrow> Inl (TfTypeError ''UInt32'')
         | Some i \<Rightarrow> derive L prevHd i))"

fun reduce_segments :: "lib \<Rightarrow> BIP32 \<Rightarrow> string list \<Rightarrow> error + BIP32" where
  "reduce_segments L prevHd [] = Inr prevHd"
| "reduce_segments L prevHd (s # ss) =
     (case derive_segment L prevHd s of
        Inl e \<Rightarrow> Inl e
      | Inr node \<Rightarrow> reduce_segments L node ss)"

definition derivePath :: "lib \<Rightarrow> BIP32 \<Rightarrow> string \<Rightarrow> error + BIP32" where
  "derivePath L this path =
     (if \<not> BIP32Path path then Inl (TfTypeError ''BIP32Path'')
      else
        (case split_on CHR ''/'' path of
           [] \<Rightarrow> Inr this
         | first # rest \<Rightarrow>
             if first = ''m'' then
               (if parentFingerprint this \<noteq> 0
                then Inl (TypeError ''Expected master, got child'')
                else reduce_segments L this rest)
             else reduce_segments L this (first # rest)))"

section \<open>The properties in the terms of the specification\<close>

text \<open>
  The 78-byte layout of the specification (section 4.4): version, depth, parent
  fingerprint, index, chain code, key data, all integers big-endian.
\<close>

definition payload :: "int \<Rightarrow> int \<Rightarrow> int \<Rightarrow> int \<Rightarrow> buffer \<Rightarrow> buffer \<Rightarrow> buffer" where
  "payload version dep pf idx cc key =
     ser32 version @ [word_of_int dep] @ ser32 pf @ ser32 idx @ cc @ key"

text \<open>
  A valid node: the network record passes \<open>NETWORK_TYPE\<close>, the chain code has 32 bytes,
  depth, index and parent fingerprint are in their ranges (one byte, 32 bits, 32 bits), a
  node of depth 0 has index 0 and parent fingerprint 0, and the key is a scalar in range
  (private node) or a point on the curve (neutered node).
\<close>

definition valid_node :: "lib \<Rightarrow> BIP32 \<Rightarrow> bool" where
  "valid_node L this =
     (NETWORK_TYPE (network this) = None
      \<and> length (chainCode this) = 32
      \<and> 0 \<le> depth this \<and> depth this \<le> 255
      \<and> UInt32 (index this) \<and> UInt32 (parentFingerprint this)
      \<and> (depth this = 0 \<longrightarrow> index this = 0 \<and> parentFingerprint this = 0)
      \<and> (case priv_d this of
            Some k \<Rightarrow> length k = 32 \<and> isPrivate L k
          | None \<Rightarrow>
              (case pub_Q this of
                 Some q \<Rightarrow> length q = 33 \<and> isPoint L q
               | None \<Rightarrow> False)))"

text \<open>
  The decoding procedure as section 4.4 of the specification words it, with the fields
  taken from the buffer by position: the decode conditions in order, then the
  construction path (which validates the key and may fail), then depth, index and parent
  fingerprint applied to the constructed node. It is compared with \<open>fromBase58\<close> below.
\<close>

definition with_position :: "int \<Rightarrow> int \<Rightarrow> int \<Rightarrow> error + BIP32 \<Rightarrow> error + BIP32" where
  "with_position dep idx pf made =
     (case made of
        Inl e \<Rightarrow> Inl e
      | Inr node \<Rightarrow> Inr (node\<lparr> depth := dep, index := idx, parentFingerprint := pf \<rparr>))"

definition spec_decode :: "lib \<Rightarrow> string \<Rightarrow> network option \<Rightarrow> error + BIP32" where
  "spec_decode L s n =
     (case bs58check_decode L s of
        None \<Rightarrow> Inl Base58Error
      | Some buf \<Rightarrow>
          (let net = network_or_default n;
               version = be_val (take 4 buf);
               dep = be_val (take 1 (drop 4 buf));
               pf = be_val (take 4 (drop 5 buf));
               idx = be_val (take 4 (drop 9 buf));
               cc = take 32 (drop 13 buf);
               keydata = take 33 (drop 45 buf)
           in if length buf \<noteq> 78 then Inl (TypeError ''Invalid buffer length'')
              else if version \<noteq> bip32_private net \<and> version \<noteq> bip32_public net
                then Inl (TypeError ''Invalid network version'')
              else if dep = 0 \<and> pf \<noteq> 0 then Inl (TypeError ''Invalid parent fingerprint'')
              else if dep = 0 \<and> idx \<noteq> 0 then Inl (TypeError ''Invalid index'')
              else if version = bip32_private net then
                (if take 1 keydata \<noteq> [0] then Inl (TypeError ''Invalid private key'')
                 else with_position dep idx pf
                        (fromPrivateKey L (drop 1 keydata) cc (Some net)))
              else with_position dep idx pf (fromPublicKey L keydata cc (Some net))))"

text \<open>
  The part of the contract of the curve library that relates the two derivation
  branches, for the scalar \<open>k\<close> of a node: adding a valid scalar \<open>t\<close> to \<open>k\<close> and then taking
  the point is adding \<open>t\<cdot>G\<close> to the point of \<open>k\<close>, and one result is \<open>null\<close> exactly when the
  other is.
\<close>

definition ecc_homomorphic :: "lib \<Rightarrow> buffer \<Rightarrow> bool" where
  "ecc_homomorphic L k =
     (\<forall>t. isPrivate L t \<longrightarrow>
        pointAddScalar L (pointFromScalar L k True) t True
          = map_option (\<lambda>ki. pointFromScalar L ki True) (privateAdd L k t))"

section \<open>An executable instance of the external capabilities\<close>

text \<open>
  To run the operations on concrete inputs the record \<open>lib\<close> needs an instance. This one
  is small and computes:
  \<^item> scalars are 32 bytes, big-endian, and \<open>isPrivate\<close> is the range check \<open>[1, n)\<close> for the
    order \<open>n\<close> of secp256k1;
  \<^item> the group is the integers modulo \<open>n\<close> under addition with generator \<open>1\<close>: the point
    \<open>k\<cdot>G\<close> is written \<open>0x02\<close> followed by the 32 bytes of \<open>k\<close>, and the neutral element (the
    point at infinity) has no encoding;
  \<^item> the hash functions are simple byte shuffles of the right output length, and the
    text codec appends a one-byte checksum.
\<close>

definition secp256k1_n :: int where
  "secp256k1_n = 0xFFFFFFFFFFFFFFFFFFFFFFFFFFFFFFFEBAAEDCE6AF48A03BBFD25E8CD0364141"

definition enc32 :: "int \<Rightarrow> buffer" where
  "enc32 v = map (\<lambda>j. word_of_int (v div 256 ^ (31 - j))) [0..<32]"

definition toy_isPrivate :: "buffer \<Rightarrow> bool" where
  "toy_isPrivate k = (length k = 32 \<and> 0 < be_val k \<and> be_val k < secp256k1_n)"

definition toy_isPoint :: "buffer \<Rightarrow> bool" where
  "toy_isPoint p = (case p of [] \<Rightarrow> False | t # k \<Rightarrow> t = 2 \<and> toy_isPrivate k)"

definition toy_pointFromScalar :: "buffer \<Rightarrow> bool \<Rightarrow> buffer" where
  "toy_pointFromScalar k compressed = 2 # k"

definition toy_privateAdd :: "buffer \<Rightarrow> buffer \<Rightarrow> buffer option" where
  "toy_privateAdd k t =
     (let s = (be_val k + be_val t) mod secp256k1_n
      in if s = 0 then None else Some (enc32 s))"

definition toy_pointAddScalar :: "buffer \<Rightarrow> buffer \<Rightarrow> bool \<Rightarrow> buffer option" where
  "toy_pointAddScalar p t compressed =
     (let s = (be_val (tl p) + be_val t) mod secp256k1_n
      in if s = 0 then None else Some (2 # enc32 s))"

definition toy_hash160 :: "buffer \<Rightarrow> buffer" where
  "toy_hash160 b = take 20 (rev b @ replicate 20 0)"

definition toy_hmacSHA512 :: "buffer \<Rightarrow> buffer \<Rightarrow> buffer" where
  "toy_hmacSHA512 key data =
     (let b = (if data = [] then 0 else last data)
      in replicate 31 0 @ [b + 1] @ take 32 (key @ replicate 32 b))"

definition checksum8 :: "buffer \<Rightarrow> byte" where
  "checksum8 b = foldl (+) 0 b"

definition toy_encode :: "buffer \<Rightarrow> string" where
  "toy_encode b = map (\<lambda>x. char_of (unat x)) (b @ [checksum8 b])"

definition toy_decode :: "string \<Rightarrow> buffer option" where
  "toy_decode s =
     (let b = map (\<lambda>c. of_nat (of_char c)) s
      in if b \<noteq> [] \<and> last b = checksum8 (butlast b) then Some (butlast b) else None)"

definition toy_lib :: lib where
  "toy_lib =
     \<lparr> isPrivate = toy_isPrivate, isPoint = toy_isPoint,
       pointFromScalar = toy_pointFromScalar, privateAdd = toy_privateAdd,
       pointAddScalar = toy_pointAddScalar, hash160 = toy_hash160,
       hmacSHA512 = toy_hmacSHA512, bs58check_encode = toy_encode,
       bs58check_decode = toy_decode \<rparr>"

text \<open>
  Nodes and buffers to run the operations on: a private root and its neutered twin, the
  child of each at index 255 (where this instance retries once), the child of the
  private root at index \<open>2^31 - 1\<close> (where the retry is hardened), a node of depth 255 and
  its child, a neutered node whose network has one version word for both kinds of key
  (its point is the generator of secp256k1), and a payload with an all-zero private key.
\<close>

definition example_private :: BIP32 where
  "example_private =
     \<lparr> priv_d = Some (replicate 31 0 @ [8]), pub_Q = None,
       chainCode = replicate 32 7, network = BITCOIN,
       depth = 0, index = 0, parentFingerprint = 0 \<rparr>"

definition example_neutered :: BIP32 where
  "example_neutered =
     \<lparr> priv_d = None, pub_Q = Some (2 # replicate 31 0 @ [8]),
       chainCode = replicate 32 7, network = BITCOIN,
       depth = 0, index = 0, parentFingerprint = 0 \<rparr>"

definition example_child :: BIP32 where
  "example_child =
     \<lparr> priv_d = Some (replicate 31 0 @ [9]), pub_Q = None,
       chainCode = replicate 32 7, network = BITCOIN,
       depth = 1, index = 256, parentFingerprint = 0x08000000 \<rparr>"

definition example_child_neutered :: BIP32 where
  "example_child_neutered =
     \<lparr> priv_d = None, pub_Q = Some (2 # replicate 31 0 @ [9]),
       chainCode = replicate 32 7, network = BITCOIN,
       depth = 1, index = 256, parentFingerprint = 0x08000000 \<rparr>"

definition example_hardened_child :: BIP32 where
  "example_hardened_child =
     \<lparr> priv_d = Some (replicate 31 0 @ [9]), pub_Q = None,
       chainCode = replicate 32 7, network = BITCOIN,
       depth = 1, index = 2 ^ 31, parentFingerprint = 0x08000000 \<rparr>"

definition example_deep :: BIP32 where
  "example_deep = example_private \<lparr> depth := 255, index := 3, parentFingerprint := 5 \<rparr>"

definition example_deep_child :: BIP32 where
  "example_deep_child =
     \<lparr> priv_d = Some (replicate 31 0 @ [9]), pub_Q = None,
       chainCode = replicate 32 7, network = BITCOIN,
       depth = 256, index = 0, parentFingerprint = 0x08000000 \<rparr>"

definition example_payload :: buffer where
  "example_payload =
     payload 0x0488ade4 0 0 0 (replicate 32 7) (0 # replicate 31 0 @ [8])"

definition generator_point :: buffer where
  "generator_point =
     [0x02,
      0x79, 0xBE, 0x66, 0x7E, 0xF9, 0xDC, 0xBB, 0xAC, 0x55, 0xA0, 0x62, 0x95,
      0xCE, 0x87, 0x0B, 0x07, 0x02, 0x9B, 0xFC, 0xDB, 0x2D, 0xCE, 0x28, 0xD9,
      0x59, 0xF2, 0x81, 0x5B, 0x16, 0xF8, 0x17, 0x98]"

definition one_word_network :: network where
  "one_word_network =
     \<lparr> wif = 0x80, bip32_public = 0x0488b21e, bip32_private = 0x0488b21e \<rparr>"

definition one_word_node :: BIP32 where
  "one_word_node =
     \<lparr> priv_d = None, pub_Q = Some generator_point,
       chainCode = replicate 32 0, network = one_word_network,
       depth = 0, index = 0, parentFingerprint = 0 \<rparr>"

definition one_word_payload :: buffer where
  "one_word_payload = payload 0x0488b21e 0 0 0 (replicate 32 0) generator_point"

definition zero_key_payload :: buffer where
  "zero_key_payload = payload 0x0488ade4 0 0 0 (replicate 32 0) (replicate 33 0)"

section \<open>Buffer arithmetic\<close>

declare derive.simps [simp del]

lemma uint_byte_of_int: "uint (word_of_int k :: byte) = k mod 256"
  by (simp add: uint_word_of_int)

lemma top_byte_small:
  assumes "0 \<le> (v::int)" and "v < 4294967296"
  shows "v div 16777216 mod 256 = v div 16777216"
proof -
  from assms have "v div 16777216 < 256"
    by (simp add: div_less_iff_less_mult)
  moreover from assms have "0 \<le> v div 16777216"
    by (simp add: pos_imp_zdiv_nonneg_iff)
  ultimately show ?thesis by simp
qed

lemma be32_decompose:
  assumes "0 \<le> (v::int)" and "v < 4294967296"
  shows "v div 16777216 mod 256 * 16777216 + v div 65536 mod 256 * 65536
         + v div 256 mod 256 * 256 + v mod 256 = v"
proof -
  have d16: "v div 65536 = v div 256 div 256"
    and d24: "v div 16777216 = v div 256 div 256 div 256"
    by (simp_all add: zdiv_zmult2_eq [symmetric])
  define a where "a = v div 256"
  define b where "b = a div 256"
  define c where "c = b div 256"
  have 1: "v = a * 256 + v mod 256" unfolding a_def by simp
  have 2: "a = b * 256 + a mod 256" unfolding b_def by simp
  have 3: "b = c * 256 + b mod 256" unfolding c_def by simp
  have top: "c mod 256 = c"
    using top_byte_small [OF assms] by (simp add: d24 a_def b_def c_def)
  have "c * 16777216 + b mod 256 * 65536 + a mod 256 * 256 + v mod 256 = v"
    using 1 2 3 by algebra
  then show ?thesis
    by (simp add: d16 d24 top a_def [symmetric] b_def [symmetric] c_def [symmetric])
qed

text \<open>Reading back what \<open>writeUInt32BE\<close> wrote gives the number written.\<close>

lemma read_ser32:
  assumes "UInt32 v"
  shows "uint (word_of_int (v div 2 ^ 24) :: byte) * 2 ^ 24
         + uint (word_of_int (v div 2 ^ 16) :: byte) * 2 ^ 16
         + uint (word_of_int (v div 2 ^ 8) :: byte) * 2 ^ 8
         + uint (word_of_int v :: byte) = v"
proof -
  from assms have r: "0 \<le> v" "v < 4294967296" by (simp_all add: UInt32_def)
  have p: "(2::int) ^ 24 = 16777216" "(2::int) ^ 16 = 65536" "(2::int) ^ 8 = 256" by simp_all
  show ?thesis
    unfolding uint_byte_of_int p by (rule be32_decompose [OF r])
qed

lemma length_ser32 [simp]: "length (ser32 v) = 4"
  by (simp add: ser32_def)

lemma length_payload:
  "length (payload version dep pf idx cc key) = 13 + length cc + length key"
  by (simp add: payload_def)

lemma take4_drop:
  assumes "off + 4 \<le> length buf"
  shows "take 4 (drop off buf) = [buf ! off, buf ! (off + 1), buf ! (off + 2), buf ! (off + 3)]"
proof (rule nth_equalityI)
  show "length (take 4 (drop off buf))
          = length [buf ! off, buf ! (off + 1), buf ! (off + 2), buf ! (off + 3)]"
    using assms by simp
next
  fix i assume "i < length (take 4 (drop off buf))"
  then have "i < 4" by simp
  then consider "i = 0" | "i = 1" | "i = 2" | "i = 3" by linarith
  then show "take 4 (drop off buf) ! i
               = [buf ! off, buf ! (off + 1), buf ! (off + 2), buf ! (off + 3)] ! i"
    using assms by cases (simp_all add: add.commute)
qed

lemma readUInt32BE_be_val:
  assumes "off + 4 \<le> length buf"
  shows "readUInt32BE buf off = Inr (be_val (take 4 (drop off buf)))"
  using assms by (simp add: take4_drop readUInt32BE_def be_val_def)

lemma take1_drop:
  assumes "off < length buf"
  shows "take 1 (drop off buf) = [buf ! off]"
  using assms by (simp add: take_Suc_conv_app_nth hd_drop_conv_nth take_Suc)

text \<open>
  The bytes that \<open>derive\<close> hashes do not depend on what \<open>allocUnsafe\<close> returned, for keys of
  the lengths the constructors check.
\<close>

lemma derive_data_filled:
  assumes "length buf = 37"
  shows "length pk = 33 \<Longrightarrow> buf_copy (ser32 i) (buf_copy pk buf 0) 33 = pk @ ser32 i"
    and "length k = 32 \<Longrightarrow> buf_copy (ser32 i) (buf_copy k (buf[0 := 0]) 1) 33 = 0 # k @ ser32 i"
proof -
  show "buf_copy (ser32 i) (buf_copy pk buf 0) 33 = pk @ ser32 i" if "length pk = 33"
    using assms that by (simp add: buf_copy_def)
  show "buf_copy (ser32 i) (buf_copy k (buf[0 := 0]) 1) 33 = 0 # k @ ser32 i"
    if "length k = 32"
  proof -
    from assms obtain x xs where "buf = x # xs" by (cases buf) auto
    with assms that show ?thesis by (simp add: buf_copy_def)
  qed
qed

section \<open>The serialized layout\<close>

lemma toBase58_private:
  assumes "UInt32 (bip32_private (network this))" and "UInt8 (depth this)"
    and "UInt32 (index this)" and "UInt32 (parentFingerprint this)"
    and "length (chainCode this) = 32" and "priv_d this = Some k" and "length k = 32"
  shows "toBase58 L this = Inr (bs58check_encode L
           (payload (bip32_private (network this)) (depth this) (parentFingerprint this)
              (index this) (chainCode this) (0 # k)))"
  using assms
  by (simp add: toBase58_def Let_def isNeutered_def privateKey_def writeUInt32BE_def
      writeUInt8_def UInt8_def allocUnsafe_def buf_copy_def ser32_def payload_def)

lemma toBase58_neutered:
  assumes "UInt32 (bip32_public (network this))" and "UInt8 (depth this)"
    and "UInt32 (index this)" and "UInt32 (parentFingerprint this)"
    and "length (chainCode this) = 32" and "priv_d this = None"
    and "pub_Q this = Some q" and "length q = 33"
  shows "toBase58 L this = Inr (bs58check_encode L
           (payload (bip32_public (network this)) (depth this) (parentFingerprint this)
              (index this) (chainCode this) q))"
  using assms
  by (simp add: toBase58_def Let_def isNeutered_def privateKey_def publicKey_def
      writeUInt32BE_def writeUInt8_def UInt8_def allocUnsafe_def buf_copy_def ser32_def
      payload_def)

lemma payload_reads:
  assumes "UInt32 version" and "UInt8 dep" and "UInt32 pf" and "UInt32 idx"
    and "length cc = 32" and "length key = 33"
  shows "readUInt32BE (payload version dep pf idx cc key) 0 = Inr version"
    and "uint (payload version dep pf idx cc key ! 4) = dep"
    and "readUInt32BE (payload version dep pf idx cc key) 5 = Inr pf"
    and "readUInt32BE (payload version dep pf idx cc key) 9 = Inr idx"
    and "buf_slice (payload version dep pf idx cc key) 13 45 = cc"
    and "buf_slice (payload version dep pf idx cc key) 45 78 = key"
    and "readUInt8 (payload version dep pf idx cc key) 45 = Inr (uint (key ! 0))"
    and "buf_slice (payload version dep pf idx cc key) 46 78 = tl key"
proof -
  show "readUInt32BE (payload version dep pf idx cc key) 0 = Inr version"
    using assms read_ser32 [of version]
    by (simp add: readUInt32BE_def payload_def ser32_def)
  show "uint (payload version dep pf idx cc key ! 4) = dep"
    using assms by (simp add: payload_def ser32_def uint_byte_of_int UInt8_def)
  show "readUInt32BE (payload version dep pf idx cc key) 5 = Inr pf"
    using assms read_ser32 [of pf]
    by (simp add: readUInt32BE_def payload_def ser32_def)
  show "readUInt32BE (payload version dep pf idx cc key) 9 = Inr idx"
    using assms read_ser32 [of idx]
    by (simp add: readUInt32BE_def payload_def ser32_def)
  show "buf_slice (payload version dep pf idx cc key) 13 45 = cc"
    using assms by (simp add: buf_slice_def payload_def ser32_def)
  show "buf_slice (payload version dep pf idx cc key) 45 78 = key"
    using assms by (simp add: buf_slice_def payload_def ser32_def)
  show "readUInt8 (payload version dep pf idx cc key) 45 = Inr (uint (key ! 0))"
    using assms by (simp add: readUInt8_def payload_def ser32_def nth_append)
  show "buf_slice (payload version dep pf idx cc key) 46 78 = tl key"
    using assms by (simp add: buf_slice_def payload_def ser32_def drop_Suc)
qed

section \<open>The executable instance meets the contracts\<close>

lemma byte_of_char_of_byte: "word_of_nat (unat (x :: byte) mod 256) = x"
proof -
  have "unat x < 2 ^ LENGTH(8)" by (rule unsigned_less)
  then have "unat x mod 256 = unat x" by simp
  then show ?thesis by simp
qed

lemma toy_codec: "bs58check_decode toy_lib (bs58check_encode toy_lib b) = Some b"
proof -
  have "map (\<lambda>c. of_nat (of_char c)) (map (\<lambda>x. char_of (unat x)) xs) = xs"
    for xs :: buffer
    by (induction xs) (simp_all add: byte_of_char_of_byte)
  then show ?thesis
    by (simp add: toy_lib_def toy_decode_def toy_encode_def Let_def byte_of_char_of_byte
        del: map_map)
qed

lemma toy_homomorphic: "ecc_homomorphic toy_lib k"
  by (simp add: ecc_homomorphic_def toy_lib_def toy_pointAddScalar_def
      toy_pointFromScalar_def toy_privateAdd_def Let_def)

lemma toy_points:
  "\<forall>ki. isPrivate toy_lib ki \<longrightarrow>
     isPoint toy_lib (pointFromScalar toy_lib ki True)
     \<and> length (pointFromScalar toy_lib ki True) = 33"
  by (simp add: toy_lib_def toy_isPoint_def toy_pointFromScalar_def toy_isPrivate_def)

section \<open>Seed bootstrap\<close>

lemma fromPrivateKey_not_seed_error:
  "fromPrivateKey L k cc n \<noteq> Inl (TypeError ''Seed should be at least 128 bits'')"
  "fromPrivateKey L k cc n \<noteq> Inl (TypeError ''Seed should be at most 512 bits'')"
  by (simp_all add: fromPrivateKey_def BIP32_new_def NETWORK_TYPE_def)

text \<open>
  Claim C7. \<open>fromSeed\<close> raises the "at least 128 bits" error exactly for the seeds shorter
  than 16 bytes and the "at most 512 bits" error exactly for the seeds longer than 64
  bytes; so a seed of 16 to 64 bytes raises neither.
\<close>

theorem fromSeed_length_errors:
  "(fromSeed L seed n = Inl (TypeError ''Seed should be at least 128 bits''))
     = (length seed < 16)
   \<and> (fromSeed L seed n = Inl (TypeError ''Seed should be at most 512 bits''))
     = (64 < length seed)"
  by (simp add: fromSeed_def Let_def fromPrivateKey_not_seed_error)

theorem fromSeed_length_errors_witness:
  "fromSeed toy_lib (replicate 15 1) None = Inl (TypeError ''Seed should be at least 128 bits'')
   \<and> fromSeed toy_lib (replicate 65 1) None = Inl (TypeError ''Seed should be at most 512 bits'')
   \<and> fromSeed toy_lib (replicate 16 1) None \<noteq> Inl (TypeError ''Seed should be at least 128 bits'')
   \<and> fromSeed toy_lib (replicate 64 1) None \<noteq> Inl (TypeError ''Seed should be at most 512 bits'')"
  using fromSeed_length_errors [of toy_lib "replicate 15 1" None]
    fromSeed_length_errors [of toy_lib "replicate 65 1" None]
    fromSeed_length_errors [of toy_lib "replicate 16 1" None]
    fromSeed_length_errors [of toy_lib "replicate 64 1" None]
  by simp

text \<open>
  Claim C9. A seed of valid length whose HMAC-SHA512 output (64 bytes) has a first half
  that is not a valid scalar makes \<open>fromSeed\<close> raise "Private key not in range [1, n)".
\<close>

theorem fromSeed_invalid_scalar:
  assumes "16 \<le> length seed" and "length seed \<le> 64"
    and "length (hmacSHA512 L bitcoin_seed seed) = 64"
    and "\<not> isPrivate L (buf_slice (hmacSHA512 L bitcoin_seed seed) 0 32)"
  shows "fromSeed L seed n = Inl (TypeError ''Private key not in range [1, n)'')"
  using assms
  by (simp add: fromSeed_def Let_def fromPrivateKey_def UINT256_TYPE_def BufferN_def
      buf_slice_def)

theorem fromSeed_invalid_scalar_witness:
  "length (hmacSHA512 toy_lib bitcoin_seed (replicate 16 255)) = 64
   \<and> \<not> isPrivate toy_lib (buf_slice (hmacSHA512 toy_lib bitcoin_seed (replicate 16 255)) 0 32)
   \<and> fromSeed toy_lib (replicate 16 255) None
       = Inl (TypeError ''Private key not in range [1, n)'')"
proof -
  have len: "length (hmacSHA512 toy_lib bitcoin_seed (replicate 16 255)) = 64"
    by code_simp
  have bad: "\<not> isPrivate toy_lib
               (buf_slice (hmacSHA512 toy_lib bitcoin_seed (replicate 16 255)) 0 32)"
    by code_simp
  have "fromSeed toy_lib (replicate 16 255) None
          = Inl (TypeError ''Private key not in range [1, n)'')"
    by (rule fromSeed_invalid_scalar [OF _ _ len bad]) simp_all
  with len bad show ?thesis by blast
qed

section \<open>Derivation\<close>

subsection \<open>Unfolding the retry loop\<close>

lemma derive_unfold_Retry:
  "UInt32 i \<Longrightarrow> derive_attempt L this i = Retry \<Longrightarrow> derive L this i = derive L this (i + 1)"
  by (subst derive.simps) simp

lemma derive_unfold_Done:
  "UInt32 i \<Longrightarrow> derive_attempt L this i = Done r \<Longrightarrow> derive L this i = r"
  by (subst derive.simps) simp

lemma derive_Inr_UInt32: "derive L this i = Inr c \<Longrightarrow> UInt32 i"
  by (subst (asm) derive.simps) (simp split: if_splits)

text \<open>
  A successful \<open>derive\<close> ends in a pass that returns the child, at the first index from
  \<open>i\<close> on where the pass does not ask for a retry.
\<close>

lemma derive_success:
  "derive L p i = Inr c \<Longrightarrow>
     \<exists>j. i \<le> j \<and> UInt32 j \<and> derive_attempt L p j = Done (Inr c)
       \<and> (\<forall>k. i \<le> k \<and> k < j \<longrightarrow> derive_attempt L p k = Retry)"
proof (induction L p i rule: derive.induct)
  case (1 L this i)
  have u: "UInt32 i" by (rule derive_Inr_UInt32 [OF "1.prems"])
  show ?case
  proof (cases "derive_attempt L this i")
    case Retry
    with "1.prems" u have "derive L this (i + 1) = Inr c"
      by (simp add: derive_unfold_Retry)
    from "1.IH" [OF _ Retry this] u obtain j where
      j: "i + 1 \<le> j" "UInt32 j" "derive_attempt L this j = Done (Inr c)"
         "\<forall>k. i + 1 \<le> k \<and> k < j \<longrightarrow> derive_attempt L this k = Retry"
      by auto
    have "\<forall>k. i \<le> k \<and> k < j \<longrightarrow> derive_attempt L this k = Retry"
    proof (intro allI impI)
      fix k assume "i \<le> k \<and> k < j"
      then have "k = i \<or> (i + 1 \<le> k \<and> k < j)" by auto
      then show "derive_attempt L this k = Retry" using Retry j(4) by auto
    qed
    with j show ?thesis by (intro exI [of _ j]) auto
  next
    case (Done r)
    with "1.prems" u have "r = Inr c"
      by (simp add: derive_unfold_Done)
    with Done u show ?thesis by (intro exI [of _ i]) auto
  qed
qed

lemma derive_attempt_Done_fields:
  assumes "derive_attempt L p j = Done (Inr c)"
  shows "depth c = depth p + 1" and "index c = j" and "network c = network p"
    and "NETWORK_TYPE (network c) = None"
    and "\<exists>h. identifier L p = Inr h \<and> 4 \<le> length h \<and>
           parentFingerprint c = uint (h ! 0) * 2 ^ 24 + uint (h ! 1) * 2 ^ 16
                                 + uint (h ! 2) * 2 ^ 8 + uint (h ! 3)"
  using assms
  by (auto simp: derive_attempt_def derive_finish_def Let_def fromPrivateKey_def
      fromPublicKey_def BIP32_new_def network_or_default_def fingerprint_def
      readUInt32BE_def buf_slice_def eval_nat_numeral
      split: sum.splits option.splits if_splits)

text \<open>When a pass on a neutered node at a normal index asks for a retry.\<close>

lemma derive_attempt_Retry_neutered:
  assumes "priv_d this = None" and "pub_Q this = Some pk" and "UInt32 i" and "i < 2 ^ 31"
  shows "(derive_attempt L this i = Retry) =
           (let data = buf_copy (ser32 i) (buf_copy pk (allocUnsafe 37) 0) 33;
                IL = buf_slice (hmacSHA512 L (chainCode this) data) 0 32
            in \<not> isPrivate L IL \<or> pointAddScalar L pk IL True = None)"
  using assms
  by (auto simp: derive_attempt_def derive_data_def Let_def HIGHEST_BIT_def publicKey_def
      privateKey_def writeUInt32BE_def allocUnsafe_def buf_copy_def
      split: option.splits)

lemma derive_neutered_hardened:
  assumes "priv_d this = None" and "2 ^ 31 \<le> m" and "m < 2 ^ 32"
  shows "derive L this m = Inl (TypeError ''Missing private key for hardened child key'')"
  using assms
  by (subst derive.simps)
    (simp add: UInt32_def derive_attempt_def derive_data_def HIGHEST_BIT_def privateKey_def)

subsection \<open>Hardened derivation needs the private key\<close>

text \<open>
  Claim C4. On a neutered node, \<open>derive\<close> with a 32-bit index of at least \<open>2^31\<close> fails
  with the "missing private key" error, and so does \<open>deriveHardened\<close> with every index in
  \<open>[0, 2^31 - 1]\<close>; neither returns a node.
\<close>

theorem hardened_from_neutered_fails:
  assumes "isNeutered this"
  shows "(2 ^ 31 \<le> i \<and> i < 2 ^ 32 \<longrightarrow>
            derive L this i = Inl (TypeError ''Missing private key for hardened child key''))
       \<and> (0 \<le> j \<and> j \<le> 2 ^ 31 - 1 \<longrightarrow>
            deriveHardened L this j
              = Inl (TypeError ''Missing private key for hardened child key''))"
proof -
  from assms have n: "priv_d this = None" by (simp add: isNeutered_def)
  show ?thesis
    by (auto simp: derive_neutered_hardened [OF n] deriveHardened_def UInt31_def UInt32_def
        UINT31_MAX_def HIGHEST_BIT_def)
qed

theorem hardened_from_neutered_fails_witness:
  "isNeutered example_neutered
   \<and> derive toy_lib example_neutered (2 ^ 31 + 5)
       = Inl (TypeError ''Missing private key for hardened child key'')
   \<and> deriveHardened toy_lib example_neutered 5
       = Inl (TypeError ''Missing private key for hardened child key'')"
proof -
  have n: "isNeutered example_neutered"
    by (simp add: isNeutered_def example_neutered_def)
  from hardened_from_neutered_fails [OF n, of "2 ^ 31 + 5" toy_lib 5] n
  show ?thesis by simp
qed

subsection \<open>The tree position of a child\<close>

text \<open>
  Claim C5. When \<open>derive parent i\<close> returns a child, the child's depth is the parent's
  plus one; its index is the effective index: at least \<open>i\<close>, the index of the pass that
  returned the child, with every index from \<open>i\<close> up to it a pass that asked for a retry;
  and its parent fingerprint is the first four bytes of the parent's identifier read as a
  big-endian unsigned 32-bit number.
\<close>

theorem derive_child_fields:
  assumes "derive L parent i = Inr child"
  shows "depth child = depth parent + 1
       \<and> i \<le> index child
       \<and> derive_attempt L parent (index child) = Done (Inr child)
       \<and> (\<forall>k. i \<le> k \<and> k < index child \<longrightarrow> derive_attempt L parent k = Retry)
       \<and> (\<exists>h. identifier L parent = Inr h \<and> 4 \<le> length h \<and>
             parentFingerprint child
               = uint (h ! 0) * 2 ^ 24 + uint (h ! 1) * 2 ^ 16
                 + uint (h ! 2) * 2 ^ 8 + uint (h ! 3))"
proof -
  from derive_success [OF assms] obtain j where
    j: "i \<le> j" "derive_attempt L parent j = Done (Inr child)"
       "\<forall>k. i \<le> k \<and> k < j \<longrightarrow> derive_attempt L parent k = Retry"
    by blast
  note f = derive_attempt_Done_fields [OF j(2)]
  from f(2) j show ?thesis using f(1) f(5) by simp
qed

theorem derive_child_fields_witness:
  "derive toy_lib example_private 255 = Inr example_child
   \<and> depth example_child = depth example_private + 1
   \<and> index example_child = 256
   \<and> derive_attempt toy_lib example_private 255 = Retry
   \<and> derive_attempt toy_lib example_private 256 = Done (Inr example_child)
   \<and> identifier toy_lib example_private = Inr (8 # replicate 19 0)
   \<and> parentFingerprint example_child = 8 * 2 ^ 24"
proof -
  have d: "derive toy_lib example_private 255 = Inr example_child"
    by code_simp
  have i: "index example_child = 256"
    and h: "identifier toy_lib example_private = Inr (8 # replicate 19 0)"
    and p: "parentFingerprint example_child = 8 * 2 ^ 24"
    by code_simp+
  from derive_child_fields [OF d] d i h p show ?thesis by simp
qed

subsection \<open>Depth is not bounded by derivation\<close>

text \<open>
  Claim C8. \<open>derive\<close> does not check the depth: a child that \<open>derive\<close> returns for a parent
  of depth 255 has depth 256, and \<open>toBase58\<close> on that child fails in the one-byte write of
  the depth (the value 256 is outside \<open>0..255\<close>).
\<close>

theorem derive_depth_overflow:
  assumes "depth parent = 255" and "derive L parent i = Inr child"
  shows "depth child = 256 \<and> toBase58 L child = Inl (OutOfRange 0xff 256)"
proof -
  from derive_success [OF assms(2)] obtain j where
    j: "derive_attempt L parent j = Done (Inr child)"
    by blast
  note f = derive_attempt_Done_fields [OF j]
  from f(1) assms(1) have d: "depth child = 256" by simp
  from f(4) have "UInt32 (bip32_private (network child))"
    and "UInt32 (bip32_public (network child))"
    by (auto simp: NETWORK_TYPE_def split: if_splits)
  then have "toBase58 L child = Inl (OutOfRange 0xff 256)"
    by (simp add: toBase58_def Let_def writeUInt32BE_def writeUInt8_def allocUnsafe_def
        UInt8_def d)
  with d show ?thesis by simp
qed

theorem derive_depth_overflow_witness:
  "depth example_deep = 255
   \<and> derive toy_lib example_deep 0 = Inr example_deep_child
   \<and> depth example_deep_child = 256
   \<and> toBase58 toy_lib example_deep_child = Inl (OutOfRange 0xff 256)"
proof -
  have p: "depth example_deep = 255"
    by (simp add: example_deep_def)
  have d: "derive toy_lib example_deep 0 = Inr example_deep_child"
    by code_simp
  from derive_depth_overflow [OF p d] p d show ?thesis by simp
qed

subsection \<open>A retry can leave the class of the requested index\<close>



subsection \<open>Neutering and derivation\<close>

lemma neutered_Inr:
  assumes "neutered L this = Inr nn"
  shows "\<exists>P. publicKey L this = Inr P
           \<and> nn = \<lparr> priv_d = None, pub_Q = Some P, chainCode = chainCode this,
                    network = network this, depth = depth this, index = index this,
                    parentFingerprint = parentFingerprint this \<rparr>"
  using assms
  by (auto simp: neutered_def fromPublicKey_def BIP32_new_def network_or_default_def
      split: sum.splits if_splits option.splits)

text \<open>
  At a normal index the pass on a private node and the pass on its neutered copy hash
  the same bytes, so they ask for a retry together, and the children they return are a
  node and its neutered copy.
\<close>

lemma attempts_agree:
  assumes k: "priv_d this = Some k"
    and Q: "pub_Q this = None \<or> pub_Q this = Some (pointFromScalar L k True)"
    and law: "ecc_homomorphic L k"
    and nn: "neutered L this = Inr nn"
    and i: "i < 2 ^ 31"
  shows "(derive_attempt L this i = Retry) = (derive_attempt L nn i = Retry)"
    and "derive_attempt L this i = Done (Inr c) \<Longrightarrow> derive_attempt L nn i = Done (Inr c')
           \<Longrightarrow> neutered L c = Inr c'"
proof -
  let ?P = "pointFromScalar L k True"
  from k Q have pk: "publicKey L this = Inr ?P"
    by (auto simp: publicKey_def)
  with neutered_Inr [OF nn] have nn_eq:
    "nn = \<lparr> priv_d = None, pub_Q = Some ?P, chainCode = chainCode this,
            network = network this, depth = depth this, index = index this,
            parentFingerprint = parentFingerprint this \<rparr>"
    by simp
  then have pk': "publicKey L nn = Inr ?P"
    and nnf: "priv_d nn = None" "chainCode nn = chainCode this" "network nn = network this"
      "depth nn = depth this"
    by (simp_all add: publicKey_def)
  from i pk pk' have data: "derive_data L nn i = derive_data L this i"
    by (simp add: derive_data_def HIGHEST_BIT_def Let_def)
  have fp: "fingerprint L nn = fingerprint L this"
    by (simp add: fingerprint_def identifier_def pk pk')
  show "(derive_attempt L this i = Retry) = (derive_attempt L nn i = Retry)"
    using law k pk' nnf
    by (auto simp: derive_attempt_def data Let_def privateKey_def ecc_homomorphic_def
        split: sum.splits option.splits)
  show "neutered L c = Inr c'"
    if "derive_attempt L this i = Done (Inr c)" and "derive_attempt L nn i = Done (Inr c')"
    using that law k pk' nnf
    by (auto simp: derive_attempt_def data Let_def privateKey_def ecc_homomorphic_def
        derive_finish_def fp fromPrivateKey_def fromPublicKey_def BIP32_new_def
        network_or_default_def neutered_def publicKey_def
        split: sum.splits option.splits if_splits)
qed

text \<open>
  When the derivation at an index \<open>i < 2^31\<close> returns a child on a private node and on
  its neutered copy, the neutered copy of the one child is the other child.
\<close>

lemma children_agree_when_both_return:
  assumes k: "priv_d this = Some k"
    and Q: "pub_Q this = None \<or> pub_Q this = Some (pointFromScalar L k True)"
    and law: "ecc_homomorphic L k"
    and i: "i < 2 ^ 31"
    and d: "derive L this i = Inr c"
    and nn: "neutered L this = Inr nn"
    and d': "derive L nn i = Inr c'"
  shows "neutered L c = Inr c' \<and> isNeutered c'"
proof -
  have eq: "neutered L c = Inr c'"
    using assms
  proof (induction L this i rule: derive.induct)
    case (1 L this i)
    note k = "1.prems"(1) and Q = "1.prems"(2) and law = "1.prems"(3) and i = "1.prems"(4)
      and d = "1.prems"(5) and nn = "1.prems"(6) and d' = "1.prems"(7)
    note agree = attempts_agree [OF k Q law nn i]
    have u: "UInt32 i" by (rule derive_Inr_UInt32 [OF d])
    show ?case
    proof (cases "derive_attempt L this i")
      case Retry
      with agree(1) have Retry': "derive_attempt L nn i = Retry" by simp
      from d have s: "derive L this (i + 1) = Inr c"
        by (simp add: derive_unfold_Retry [OF u Retry])
      from d' have s': "derive L nn (i + 1) = Inr c'"
        by (simp add: derive_unfold_Retry [OF u Retry'])
      show ?thesis
      proof (cases "i + 1 < 2 ^ 31")
        case True
        show ?thesis
          by (rule "1.IH" [OF _ Retry k Q law True s nn s']) (simp add: u)
      next
        case False
        from neutered_Inr [OF nn] have "priv_d nn = None" by auto
        from derive_neutered_hardened [OF this, of "i + 1" L] False i s'
        show ?thesis by simp
      qed
    next
      case (Done r)
      from d have r: "r = Inr c"
        by (simp add: derive_unfold_Done [OF u Done])
      from agree(1) Done obtain r' where Done': "derive_attempt L nn i = Done r'"
        by (cases "derive_attempt L nn i") simp_all
      from d' have "r' = Inr c'"
        by (simp add: derive_unfold_Done [OF u Done'])
      with Done Done' r show ?thesis
        by (intro agree(2)) simp_all
    qed
  qed
  from neutered_Inr [OF eq] have "isNeutered c'"
    by (auto simp: isNeutered_def)
  with eq show ?thesis by simp
qed

text \<open>
  The derivation on the neutered copy does succeed whenever the one on the private node
  returns a child with a normal index and the curve library maps valid scalars to
  33-byte points on the curve.
\<close>

lemma derive_index_ge:
  "derive L this i = Inr c \<Longrightarrow> i \<le> index c"
proof -
  assume a: "derive L this i = Inr c"
  from derive_success [OF a] obtain j where "i \<le> j" "derive_attempt L this j = Done (Inr c)"
    by blast
  with derive_attempt_Done_fields(2) [of L this j c] show ?thesis by simp
qed

lemma attempt_Done_transfers:
  assumes k: "priv_d this = Some k"
    and Q: "pub_Q this = None \<or> pub_Q this = Some (pointFromScalar L k True)"
    and law: "ecc_homomorphic L k"
    and pts: "\<forall>ki. isPrivate L ki \<longrightarrow>
                isPoint L (pointFromScalar L ki True) \<and> length (pointFromScalar L ki True) = 33"
    and nn: "neutered L this = Inr nn"
    and i: "i < 2 ^ 31"
    and fin: "derive_attempt L this i = Done (Inr c)"
  shows "\<exists>c'. derive_attempt L nn i = Done (Inr c')"
proof -
  let ?P = "pointFromScalar L k True"
  from k Q have pk: "publicKey L this = Inr ?P"
    by (auto simp: publicKey_def)
  with neutered_Inr [OF nn] have nn_eq:
    "nn = \<lparr> priv_d = None, pub_Q = Some ?P, chainCode = chainCode this,
            network = network this, depth = depth this, index = index this,
            parentFingerprint = parentFingerprint this \<rparr>"
    by simp
  then have pk': "publicKey L nn = Inr ?P"
    and nnf: "priv_d nn = None" "chainCode nn = chainCode this" "network nn = network this"
      "depth nn = depth this"
    by (simp_all add: publicKey_def)
  from i pk pk' have data: "derive_data L nn i = derive_data L this i"
    by (simp add: derive_data_def HIGHEST_BIT_def Let_def)
  have fp: "fingerprint L nn = fingerprint L this"
    by (simp add: fingerprint_def identifier_def pk pk')
  show ?thesis
    using fin law pts k pk' nnf
    by (auto simp: derive_attempt_def data Let_def privateKey_def ecc_homomorphic_def
        derive_finish_def fp fromPrivateKey_def fromPublicKey_def BIP32_new_def
        network_or_default_def BufferN_def
        split: sum.splits option.splits if_splits)
qed

lemma derive_neutered_follows:
  assumes k: "priv_d this = Some k"
    and Q: "pub_Q this = None \<or> pub_Q this = Some (pointFromScalar L k True)"
    and law: "ecc_homomorphic L k"
    and pts: "\<forall>ki. isPrivate L ki \<longrightarrow>
                isPoint L (pointFromScalar L ki True) \<and> length (pointFromScalar L ki True) = 33"
    and nn: "neutered L this = Inr nn"
    and d: "derive L this i = Inr c"
    and c: "index c < 2 ^ 31"
  shows "\<exists>c'. derive L nn i = Inr c'"
  using assms
proof (induction L this i rule: derive.induct)
  case (1 L this i)
  note k = "1.prems"(1) and Q = "1.prems"(2) and law = "1.prems"(3) and pts = "1.prems"(4)
    and nn = "1.prems"(5) and d = "1.prems"(6) and c = "1.prems"(7)
  have u: "UInt32 i" by (rule derive_Inr_UInt32 [OF d])
  from derive_index_ge [OF d] c have i: "i < 2 ^ 31" by simp
  note agree = attempts_agree [OF k Q law nn i]
  show ?case
  proof (cases "derive_attempt L this i")
    case Retry
    with agree(1) have Retry': "derive_attempt L nn i = Retry" by simp
    from d have s: "derive L this (i + 1) = Inr c"
      by (simp add: derive_unfold_Retry [OF u Retry])
    have "\<exists>c'. derive L nn (i + 1) = Inr c'"
      by (rule "1.IH" [OF _ Retry k Q law pts nn s c]) (simp add: u)
    then show ?thesis by (simp add: derive_unfold_Retry [OF u Retry'])
  next
    case (Done r)
    from d have "r = Inr c" by (simp add: derive_unfold_Done [OF u Done])
    with Done attempt_Done_transfers [OF k Q law pts nn i] obtain c'
      where "derive_attempt L nn i = Done (Inr c')" by blast
    then show ?thesis by (simp add: derive_unfold_Done [OF u])
  qed
qed

lemma neutered_private_succeeds:
  assumes k: "priv_d this = Some k"
    and Q: "pub_Q this = None \<or> pub_Q this = Some (pointFromScalar L k True)"
    and valid: "isPrivate L k" "length (chainCode this) = 32"
      "NETWORK_TYPE (network this) = None"
    and pts: "\<forall>ki. isPrivate L ki \<longrightarrow>
                isPoint L (pointFromScalar L ki True) \<and> length (pointFromScalar L ki True) = 33"
  shows "\<exists>nn. neutered L this = Inr nn"
proof -
  from k Q have pk: "publicKey L this = Inr (pointFromScalar L k True)"
    by (auto simp: publicKey_def)
  from pts valid(1) have "isPoint L (pointFromScalar L k True)"
    and "length (pointFromScalar L k True) = 33" by auto
  with pk valid show ?thesis
    by (simp add: neutered_def fromPublicKey_def BufferN_def UINT256_TYPE_def BIP32_new_def
        network_or_default_def)
qed

text \<open>
  Claim C1, as the program has it. For a private node (scalar in range, chain code of 32
  bytes, its cached point, if any, the point of its scalar), a curve library that is
  homomorphic at the node's scalar and maps valid scalars to 33-byte points on the
  curve, and an index \<open>i < 2^31\<close> for which \<open>derive\<close> returns a child whose index is
  still below \<open>2^31\<close>: neutering the node succeeds, \<open>derive\<close> at \<open>i\<close> on the neutered
  copy returns a child, and that child is the neutered copy of the first child, so the
  two agree on chain code, depth, index, parent fingerprint, public key, network and
  neutered state.
\<close>

theorem neutering_commutes_below_hardened:
  assumes k: "priv_d this = Some k"
    and Q: "pub_Q this = None \<or> pub_Q this = Some (pointFromScalar L k True)"
    and valid: "isPrivate L k" "length (chainCode this) = 32"
    and law: "ecc_homomorphic L k"
    and pts: "\<forall>ki. isPrivate L ki \<longrightarrow>
                isPoint L (pointFromScalar L ki True) \<and> length (pointFromScalar L ki True) = 33"
    and i: "i < 2 ^ 31"
    and d: "derive L this i = Inr c"
    and c: "index c < 2 ^ 31"
  shows "\<exists>nn c'. neutered L this = Inr nn \<and> derive L nn i = Inr c'
           \<and> neutered L c = Inr c' \<and> isNeutered c'
           \<and> chainCode c' = chainCode c \<and> depth c' = depth c \<and> index c' = index c
           \<and> parentFingerprint c' = parentFingerprint c \<and> network c' = network c
           \<and> publicKey L c' = publicKey L c"
proof -
  from derive_success [OF d] obtain j where "derive_attempt L this j = Done (Inr c)"
    by blast
  from derive_attempt_Done_fields(3,4) [OF this]
  have net: "NETWORK_TYPE (network this) = None" by simp
  from neutered_private_succeeds [OF k Q valid net pts] obtain nn
    where nn: "neutered L this = Inr nn" by blast
  from derive_neutered_follows [OF k Q law pts nn d c] obtain c'
    where d': "derive L nn i = Inr c'" by blast
  from children_agree_when_both_return [OF k Q law i d nn d']
  have eq: "neutered L c = Inr c'" and n: "isNeutered c'" by simp_all
  from neutered_Inr [OF eq] obtain P where P: "publicKey L c = Inr P"
    and c': "c' = \<lparr> priv_d = None, pub_Q = Some P, chainCode = chainCode c,
                    network = network c, depth = depth c, index = index c,
                    parentFingerprint = parentFingerprint c \<rparr>"
    by blast
  from c' P have "chainCode c' = chainCode c" "depth c' = depth c" "index c' = index c"
    "parentFingerprint c' = parentFingerprint c" "network c' = network c"
    "publicKey L c' = publicKey L c"
    by (simp_all add: publicKey_def)
  with nn d' eq n show ?thesis by blast
qed

theorem neutering_commutes_below_hardened_witness:
  "derive toy_lib example_private 255 = Inr example_child
   \<and> index example_child < 2 ^ 31
   \<and> neutered toy_lib example_private = Inr example_neutered
   \<and> derive toy_lib example_neutered 255 = Inr example_child_neutered
   \<and> neutered toy_lib example_child = Inr example_child_neutered
   \<and> isNeutered example_child_neutered"
proof -
  have k: "priv_d example_private = Some (replicate 31 0 @ [8])"
    and Q: "pub_Q example_private = None
            \<or> pub_Q example_private
                = Some (pointFromScalar toy_lib (replicate 31 0 @ [8]) True)"
    by (simp_all add: example_private_def)
  have v: "isPrivate toy_lib (replicate 31 0 @ [8])" "length (chainCode example_private) = 32"
    by code_simp+
  have d: "derive toy_lib example_private 255 = Inr example_child"
    by code_simp
  have c: "index example_child < 2 ^ 31"
    by (simp add: example_child_def)
  have nn: "neutered toy_lib example_private = Inr example_neutered"
    by code_simp
  have nc: "neutered toy_lib example_child = Inr example_child_neutered"
    by code_simp
  have ne: "isNeutered example_child_neutered"
    by (simp add: isNeutered_def example_child_neutered_def)
  have i: "(255::int) < 2 ^ 31" by simp
  from neutering_commutes_below_hardened [OF k Q v toy_homomorphic toy_points i d c]
    d c nn nc ne
  show ?thesis by auto
qed

text \<open>
  Claim C1 as stated fails where a retry carries the index into the hardened range: on
  \<open>example_private\<close> the pass at \<open>2^31 - 1\<close> asks for a retry, the private node returns
  a child of index \<open>2^31\<close>, and its neutered copy returns none.
\<close>

theorem neutering_commutes_counterexample:
  "priv_d example_private = Some (replicate 31 0 @ [8])
   \<and> (2 ^ 31 - 1 :: int) < 2 ^ 31
   \<and> derive toy_lib example_private (2 ^ 31 - 1) = Inr example_hardened_child
   \<and> neutered toy_lib example_private = Inr example_neutered
   \<and> derive toy_lib example_neutered (2 ^ 31 - 1)
       = Inl (TypeError ''Missing private key for hardened child key'')"
  by code_simp


section \<open>Path resolution\<close>

lemma bare_m_rejected: "\<not> BIP32Path ''m''"
  by code_simp

text \<open>With one segment, anchored at \<open>m\<close> or not, \<open>derivePath\<close> is \<open>derive\<close>.\<close>

lemma derivePath_one_segment:
  "parentFingerprint this = 0 \<Longrightarrow> derivePath L this ''m/0'' = derive L this 0"
  "derivePath L this ''0'' = derive L this 0"
proof -
  have p: "BIP32Path ''m/0''" "BIP32Path ''0''" by code_simp+
  have n: "parseInt10 ''0'' = Some 0" by code_simp
  have a: "CHR ''0'' \<noteq> apostrophe" by (simp add: apostrophe_def)
  show "derivePath L this ''m/0'' = derive L this 0" if "parentFingerprint this = 0"
    using that by (simp add: derivePath_def p derive_segment_def n a split: sum.splits)
  show "derivePath L this ''0'' = derive L this 0"
    by (simp add: derivePath_def p derive_segment_def n a split: sum.splits)
qed

text \<open>
  Claim C3, as the program has it. The pattern of \<open>BIP32Path\<close> asks for at least one
  index segment, so the path \<open>m\<close> fails the \<open>typeforce\<close> check of \<open>derivePath\<close> on every
  node, root or not: no node is returned.
\<close>

theorem derivePath_bare_m_rejected:
  "derivePath L this ''m'' = Inl (TfTypeError ''BIP32Path'')"
  by (simp add: derivePath_def bare_m_rejected)

text \<open>
  Claim C3 as stated fails: on the root \<open>example_private\<close> (parent fingerprint 0) the path
  \<open>m\<close> raises an error, where the claim has the node returned unchanged.
\<close>

theorem derivePath_bare_m_counterexample:
  "parentFingerprint example_private = 0
   \<and> derivePath toy_lib example_private ''m'' \<noteq> Inr example_private
   \<and> derivePath toy_lib example_private ''m'' = Inl (TfTypeError ''BIP32Path'')"
  by code_simp

section \<open>Serialization\<close>

subsection \<open>Decoding\<close>

text \<open>
  Claim C6, as the program has it. \<open>fromBase58\<close> is the decoding procedure of the
  specification: it fails when the Base58Check decoding fails, when the payload is not
  78 bytes, when the version is neither word of the network, when the depth is 0 and the
  parent fingerprint or the index is not, and, for the private word, when byte 45 is not
  0; otherwise it hands the key and the chain code to \<open>fromPrivateKey\<close> or
  \<open>fromPublicKey\<close>, fails with the error of that constructor when it rejects them (scalar
  not in range, point not on the curve, malformed network record), and else returns the
  constructed node with depth, index and parent fingerprint set from the payload.
\<close>

theorem fromBase58_refines_spec_decode:
  "fromBase58 L s n = spec_decode L s n"
proof (cases "bs58check_decode L s")
  case None
  then show ?thesis by (simp add: fromBase58_def spec_decode_def)
next
  case (Some buf)
  show ?thesis
  proof (cases "length buf = 78")
    case False
    with Some show ?thesis by (simp add: fromBase58_def spec_decode_def Let_def)
  next
    case True
    then have r: "readUInt32BE buf 0 = Inr (be_val (take 4 buf))"
      "readUInt32BE buf 5 = Inr (be_val (take 4 (drop 5 buf)))"
      "readUInt32BE buf 9 = Inr (be_val (take 4 (drop 9 buf)))"
      using readUInt32BE_be_val [of 0 buf] readUInt32BE_be_val [of 5 buf]
        readUInt32BE_be_val [of 9 buf] by simp_all
    from True have d: "be_val (take (Suc 0) (drop 4 buf)) = uint (buf ! 4)"
      using take1_drop [of 4 buf] by (simp add: be_val_def)
    from True have k: "take (Suc 0) (drop 45 buf) = [buf ! 45]"
      "readUInt8 buf 45 = Inr (uint (buf ! 45))"
      using take1_drop [of 45 buf] by (simp_all add: readUInt8_def)
    have z: "(uint (buf ! 45) = 0) = (buf ! 45 = 0)"
      by (simp add: uint_0_iff)
    from Some True show ?thesis
      by (simp add: fromBase58_def spec_decode_def Let_def r d k z with_position_def
          buf_slice_def drop_take)
  qed
qed

theorem fromBase58_refines_spec_decode_witness:
  "spec_decode toy_lib (bs58check_encode toy_lib example_payload) None = Inr example_private
   \<and> fromBase58 toy_lib (bs58check_encode toy_lib example_payload) None = Inr example_private"
proof -
  have "spec_decode toy_lib (bs58check_encode toy_lib example_payload) None
          = Inr example_private"
    by code_simp
  with fromBase58_refines_spec_decode
         [of toy_lib "bs58check_encode toy_lib example_payload" None]
  show ?thesis by simp
qed

text \<open>
  Claim C6 as stated fails: a payload of 78 bytes with the private version word, depth,
  parent fingerprint and index 0, byte 45 equal to 0 and an all-zero scalar meets none of
  the four failure conditions of the claim, and \<open>fromBase58\<close> constructs no node from it:
  the scalar 0 is not in \<open>[1, n)\<close>.
\<close>

theorem fromBase58_zero_key_counterexample:
  "bs58check_decode toy_lib (bs58check_encode toy_lib zero_key_payload) = Some zero_key_payload
   \<and> length zero_key_payload = 78
   \<and> be_val (take 4 zero_key_payload) = bip32_private BITCOIN
   \<and> be_val (take 1 (drop 4 zero_key_payload)) = 0
   \<and> be_val (take 4 (drop 5 zero_key_payload)) = 0
   \<and> be_val (take 4 (drop 9 zero_key_payload)) = 0
   \<and> zero_key_payload ! 45 = 0
   \<and> fromBase58 toy_lib (bs58check_encode toy_lib zero_key_payload) None
       = Inl (TypeError ''Private key not in range [1, n)'')"
  by code_simp

subsection \<open>Round trip\<close>

text \<open>
  Claim C2, as the program has it. With a codec that decodes what it encoded, every
  valid node that is private, or whose network has two different version words,
  encodes to a string that decodes (on the node's network) to a node with the same depth,
  index, parent fingerprint, chain code, network, neutered state and key (the private
  key of a private node, the public key of a neutered one).
\<close>

theorem base58_roundtrip:
  assumes codec: "\<And>b. bs58check_decode L (bs58check_encode L b) = Some b"
    and valid: "valid_node L this"
    and words: "isNeutered this \<longrightarrow>
                  bip32_public (network this) \<noteq> bip32_private (network this)"
  shows "\<exists>s node. toBase58 L this = Inr s
           \<and> fromBase58 L s (Some (network this)) = Inr node
           \<and> depth node = depth this \<and> index node = index this
           \<and> parentFingerprint node = parentFingerprint this
           \<and> chainCode node = chainCode this \<and> network node = network this
           \<and> isNeutered node = isNeutered this
           \<and> privateKey node = privateKey this
           \<and> (isNeutered this \<longrightarrow> publicKey L node = publicKey L this)"
proof -
  from valid have net: "NETWORK_TYPE (network this) = None"
    and cc: "length (chainCode this) = 32"
    and dep: "UInt8 (depth this)"
    and idx: "UInt32 (index this)" and pf: "UInt32 (parentFingerprint this)"
    and root: "depth this = 0 \<longrightarrow> index this = 0 \<and> parentFingerprint this = 0"
    by (simp_all add: valid_node_def UInt8_def)
  from net have w: "UInt32 (bip32_private (network this))"
    "UInt32 (bip32_public (network this))"
    by (auto simp: NETWORK_TYPE_def split: if_splits)
  show ?thesis
  proof (cases "priv_d this")
    case (Some k)
    with valid have k: "length k = 32" "isPrivate L k"
      by (simp_all add: valid_node_def)
    let ?P = "payload (bip32_private (network this)) (depth this) (parentFingerprint this)
                (index this) (chainCode this) (0 # k)"
    have enc: "toBase58 L this = Inr (bs58check_encode L ?P)"
      by (rule toBase58_private [OF w(1) dep idx pf cc Some k(1)])
    have len: "length ?P = 78" using cc k by (simp add: length_payload)
    note rd = payload_reads [OF w(1) dep pf idx cc, of "0 # k"]
    have "fromBase58 L (bs58check_encode L ?P) (Some (network this))
            = Inr \<lparr> priv_d = Some k, pub_Q = None, chainCode = chainCode this,
                    network = network this, depth = depth this, index = index this,
                    parentFingerprint = parentFingerprint this \<rparr>"
      using k cc net root len
      by (simp add: fromBase58_def codec Let_def network_or_default_def rd
          fromPrivateKey_def UINT256_TYPE_def BufferN_def BIP32_new_def)
    with enc Some show ?thesis
      by (simp add: isNeutered_def privateKey_def)
  next
    case None
    with valid obtain q where q: "pub_Q this = Some q" "length q = 33" "isPoint L q"
      by (auto simp: valid_node_def split: option.splits)
    from None words have ne: "bip32_public (network this) \<noteq> bip32_private (network this)"
      by (simp add: isNeutered_def)
    let ?P = "payload (bip32_public (network this)) (depth this) (parentFingerprint this)
                (index this) (chainCode this) q"
    have enc: "toBase58 L this = Inr (bs58check_encode L ?P)"
      by (rule toBase58_neutered [OF w(2) dep idx pf cc None q(1) q(2)])
    have len: "length ?P = 78" using cc q by (simp add: length_payload)
    note rd = payload_reads [OF w(2) dep pf idx cc q(2)]
    have "fromBase58 L (bs58check_encode L ?P) (Some (network this))
            = Inr \<lparr> priv_d = None, pub_Q = Some q, chainCode = chainCode this,
                    network = network this, depth = depth this, index = index this,
                    parentFingerprint = parentFingerprint this \<rparr>"
      using q cc net root len ne
      by (simp add: fromBase58_def codec Let_def network_or_default_def rd
          fromPublicKey_def UINT256_TYPE_def BufferN_def BIP32_new_def)
    with enc None q show ?thesis
      by (simp add: isNeutered_def privateKey_def publicKey_def)
  qed
qed

theorem base58_roundtrip_witness:
  "valid_node toy_lib example_child_neutered
   \<and> bip32_public (network example_child_neutered)
       \<noteq> bip32_private (network example_child_neutered)
   \<and> (\<exists>s node. toBase58 toy_lib example_child_neutered = Inr s
         \<and> fromBase58 toy_lib s (Some (network example_child_neutered)) = Inr node
         \<and> depth node = depth example_child_neutered
         \<and> index node = index example_child_neutered
         \<and> parentFingerprint node = parentFingerprint example_child_neutered
         \<and> chainCode node = chainCode example_child_neutered
         \<and> network node = network example_child_neutered
         \<and> isNeutered node = isNeutered example_child_neutered
         \<and> privateKey node = privateKey example_child_neutered
         \<and> publicKey toy_lib node = publicKey toy_lib example_child_neutered)"
proof -
  have v: "valid_node toy_lib example_child_neutered"
    by code_simp
  have w: "bip32_public (network example_child_neutered)
             \<noteq> bip32_private (network example_child_neutered)"
    by code_simp
  have n: "isNeutered example_child_neutered"
    by code_simp
  from base58_roundtrip [of toy_lib example_child_neutered, OF toy_codec v] v w n
  show ?thesis by simp
qed

text \<open>
  Claim C2 as stated fails: \<open>one_word_node\<close> is a valid neutered root (its fields are in
  their ranges) on a network whose two version words are equal. Its encoding starts with
  that word, \<open>fromBase58\<close> takes the word for the private one, finds the first byte of the
  point (\<open>0x02\<close>) where a private key has \<open>0x00\<close>, and fails.
\<close>

theorem base58_roundtrip_counterexample:
  "valid_node toy_lib one_word_node
   \<and> toBase58 toy_lib one_word_node = Inr (bs58check_encode toy_lib one_word_payload)
   \<and> fromBase58 toy_lib (bs58check_encode toy_lib one_word_payload)
        (Some (network one_word_node))
       = Inl (TypeError ''Invalid private key'')"
  by code_simp

end
